theory Spec2Isabelle
  imports Complex_Main
begin

section \<open>Grid labels: \<open>GridCanvas._index_to_letters\<close> and \<open>GridCanvas._letters_to_index\<close>\<close>

text \<open>
  Python strings are modelled as HOL strings read as ASCII text: \<open>str.upper\<close> maps
  \<open>a\<close>..\<open>z\<close> to \<open>A\<close>..\<open>Z\<close> and leaves every other character alone, and
  \<open>str.strip\<close> removes the ASCII white space of Python (code points 9..13, 28..32)
  from both ends. Characters above 127 are outside what the model covers; the
  statements that depend on \<open>upper\<close> on arbitrary input say so with \<open>is_ascii\<close>.
  Python's integers are unbounded, hence \<open>int\<close>.
\<close>

definition py_ord :: "char \<Rightarrow> int" where
  "py_ord ch = of_char ch"

definition py_chr :: "int \<Rightarrow> char" where
  "py_chr i = char_of i"

definition is_ascii :: "string \<Rightarrow> bool" where
  "is_ascii s = list_all (\<lambda>ch. py_ord ch < 128) s"

definition upper_char :: "char \<Rightarrow> char" where
  "upper_char ch =
     (if py_ord CHR ''a'' \<le> py_ord ch \<and> py_ord ch \<le> py_ord CHR ''z''
      then py_chr (py_ord ch - 32) else ch)"

definition upper :: "string \<Rightarrow> string" where
  "upper s = map upper_char s"

definition isspace :: "char \<Rightarrow> bool" where
  "isspace ch = ((9 \<le> py_ord ch \<and> py_ord ch \<le> 13) \<or> (28 \<le> py_ord ch \<and> py_ord ch \<le> 32))"

definition strip :: "string \<Rightarrow> string" where
  "strip s = rev (dropWhile isspace (rev (dropWhile isspace s)))"

text \<open>
  \<^verbatim>\<open>
  def _index_to_letters(self, n):
      result = []
      while n > 0:
          n, rem = divmod(n - 1, 26)
          result.append(chr(ord('A') + rem))
      return ''.join(reversed(result))
  \<close>
  The loop is the recursion below on \<open>(n, result)\<close>; Python's \<open>divmod\<close> on integers
  is floor division, as \<open>div\<close> and \<open>mod\<close> on \<open>int\<close> are. The argument of \<open>chr\<close> is
  always within 65..90 (lemma \<open>chr_arg_in_range\<close>), so \<open>chr\<close> cannot raise.
\<close>

function index_to_letters_loop :: "int \<Rightarrow> string \<Rightarrow> string" where
  "index_to_letters_loop n result =
     (if n > 0
      then index_to_letters_loop ((n - 1) div 26)
             (result @ [py_chr (py_ord CHR ''A'' + (n - 1) mod 26)])
      else result)"
  by pat_completeness auto
termination
  by (relation "measure (\<lambda>(n, result). nat n)") auto

definition index_to_letters :: "int \<Rightarrow> string" where
  "index_to_letters n = rev (index_to_letters_loop n [])"

text \<open>
  \<^verbatim>\<open>
  def _letters_to_index(self, s):
      s = s.upper().strip()
      val = 0
      for ch in s:
          if 'A' <= ch <= 'Z':
              val = val * 26 + (ord(ch) - ord('A') + 1)
      return val
  \<close>
  The function has no \<open>raise\<close>: a character outside A..Z takes the implicit
  else branch of the \<open>if\<close> and leaves \<open>val\<close> as it is.
\<close>

definition is_AZ :: "char \<Rightarrow> bool" where
  "is_AZ ch = (py_ord CHR ''A'' \<le> py_ord ch \<and> py_ord ch \<le> py_ord CHR ''Z'')"

fun letters_to_index_loop :: "string \<Rightarrow> int \<Rightarrow> int" where
  "letters_to_index_loop [] val = val"
| "letters_to_index_loop (ch # s) val =
     (if is_AZ ch
      then letters_to_index_loop s (val * 26 + (py_ord ch - py_ord CHR ''A'' + 1))
      else letters_to_index_loop s val)"

definition letters_to_index :: "string \<Rightarrow> int" where
  "letters_to_index s = letters_to_index_loop (strip (upper s)) 0"


section \<open>Rectangles and the exclusion-zone test\<close>

text \<open>
  Coordinates are Python floats (Qt's \<open>qreal\<close>); the model computes with exact reals,
  so rounding of floating-point sums is not part of it.
\<close>

record qrectf =
  rect_x :: real
  rect_y :: real
  rect_w :: real
  rect_h :: real

text \<open>
  Modelled from the spec: \<open>QRectF.intersects\<close> belongs to Qt (PySide6) and is not among
  the sources. The spec asks for the standard axis-aligned overlap test in which touching
  edges do not intersect; the definition follows Qt's algorithm for it: each rectangle is
  normalised to \<open>[left, right]\<close> and \<open>[top, bottom]\<close>, a rectangle of width or height zero
  intersects nothing, and the ranges must overlap strictly on both axes.
\<close>

definition intersects :: "qrectf \<Rightarrow> qrectf \<Rightarrow> bool" where
  "intersects a b =
     (let l1 = (if rect_w a < 0 then rect_x a + rect_w a else rect_x a);
          r1 = (if rect_w a < 0 then rect_x a else rect_x a + rect_w a);
          l2 = (if rect_w b < 0 then rect_x b + rect_w b else rect_x b);
          r2 = (if rect_w b < 0 then rect_x b else rect_x b + rect_w b);
          t1 = (if rect_h a < 0 then rect_y a + rect_h a else rect_y a);
          b1 = (if rect_h a < 0 then rect_y a else rect_y a + rect_h a);
          t2 = (if rect_h b < 0 then rect_y b + rect_h b else rect_y b);
          b2 = (if rect_h b < 0 then rect_y b else rect_y b + rect_h b)
      in if l1 = r1 then False
         else if l2 = r2 then False
         else if l1 \<ge> r2 \<or> l2 \<ge> r1 then False
         else if t1 = b1 then False
         else if t2 = b2 then False
         else if t1 \<ge> b2 \<or> t2 \<ge> b1 then False
         else True)"

text \<open>
  \<^verbatim>\<open>
  def _bbox_intersects_rects(self, bbox):
      try:
          for r in self.rectangles:
              if bbox.intersects(r):
                  return True
      except Exception:
          return False
      return False
  \<close>
\<close>

fun bbox_intersects_rects :: "qrectf list \<Rightarrow> qrectf \<Rightarrow> bool" where
  "bbox_intersects_rects [] bbox = False"
| "bbox_intersects_rects (r # rs) bbox =
     (if intersects bbox r then True else bbox_intersects_rects rs bbox)"


section \<open>The canvas state\<close>

text \<open>
  An agent is the dictionary \<open>{'pos': QPointF, 'vel': QPointF, 'size': float,
  'battery': float}\<close>; the two points are flattened into their coordinates. Every
  dictionary the program creates has all four keys.
\<close>

record agent =
  pos_x :: real
  pos_y :: real
  vel_x :: real
  vel_y :: real
  agent_size :: real
  battery :: real

text \<open>
  The attributes of \<open>GridCanvas\<close> that the operations below read or write.
  \<open>anim_timer_active\<close> is \<open>self._anim_timer.isActive()\<close>, \<open>width\<close> and \<open>height\<close> are
  what \<open>self.width()\<close> and \<open>self.height()\<close> return, and \<open>update_calls\<close> counts the
  calls of \<open>self.update()\<close>, the repaint requests.
\<close>

record canvas =
  cell_size :: int
  width :: int
  height :: int
  pins :: "(string \<times> int) list"
  rectangles :: "qrectf list"
  quadcopters :: "agent list"
  anim_timer_active :: bool
  visited :: "(int \<times> int) set"
  purple_drone :: "agent option"
  purple_pins :: "(string \<times> int) list"
  update_calls :: nat


text \<open>
  \<^verbatim>\<open>
  def stop_quads(self):
      try:
          if self._anim_timer.isActive():
              self._anim_timer.stop()
      except Exception: pass
      try:
          if self.quadcopters:
              self.quadcopters.clear()
              self.update()
      except Exception: pass
      try:
          self.purple_drone = None
          if hasattr(self, 'purple_pins') and self.purple_pins:
              self.purple_pins.clear()
      except Exception: pass
  \<close>
\<close>

definition stop_quads :: "canvas \<Rightarrow> canvas" where
  "stop_quads c =
     (let c1 = (if anim_timer_active c then c\<lparr>anim_timer_active := False\<rparr> else c);
          c2 = (if quadcopters c1 \<noteq> []
                then c1\<lparr>quadcopters := [], update_calls := update_calls c1 + 1\<rparr>
                else c1);
          c3 = c2\<lparr>purple_drone := None\<rparr>
      in if purple_pins c3 \<noteq> [] then c3\<lparr>purple_pins := []\<rparr> else c3)"

text \<open>
  \<^verbatim>\<open>
  def place_purple_pindrop(self):
      try:
          pd = self.purple_drone
          if pd is None: return
          pos = pd.get('pos')
          if pos is None: return
          cs = self.cell_size
          col_idx = int(pos.x() // cs)
          row_idx = int(pos.y() // cs)
          if row_idx < 1 or col_idx < 1: return
          row_letter = self._index_to_letters(row_idx)
          col_num = int(col_idx)
          key = (row_letter.upper(), col_num)
          if key in getattr(self, 'purple_pins', []): return
          self.purple_pins.append(key)
          self.update()
      except Exception:
          pass
  \<close>
  \<open>pos.x() // cs\<close> raises ZeroDivisionError when \<open>cs\<close> is 0; the \<open>except\<close> clause
  swallows it before anything has been written.
\<close>

definition point_to_cell :: "int \<Rightarrow> agent \<Rightarrow> int \<times> int" where
  "point_to_cell cs a = (\<lfloor>pos_y a / real_of_int cs\<rfloor>, \<lfloor>pos_x a / real_of_int cs\<rfloor>)"

definition place_purple_pindrop :: "canvas \<Rightarrow> canvas" where
  "place_purple_pindrop c =
     (case purple_drone c of
        None \<Rightarrow> c
      | Some pd \<Rightarrow>
          if cell_size c = 0 then c
          else
            let (row_idx, col_idx) = point_to_cell (cell_size c) pd
            in if row_idx < 1 \<or> col_idx < 1 then c
               else
                 let key = (upper (index_to_letters row_idx), col_idx)
                 in if key \<in> set (purple_pins c) then c
                    else c\<lparr>purple_pins := purple_pins c @ [key],
                           update_calls := update_calls c + 1\<rparr>)"

text \<open>
  \<^verbatim>\<open>
  def _on_serial_pin(self, row, col):
      try:
          try:
              self.canvas.place_purple_pindrop()
          except Exception: pass
      except Exception: pass
  \<close>
  \<open>MainWindow\<close> owns one canvas; the slot is modelled on that canvas.
\<close>

definition on_serial_pin :: "canvas \<Rightarrow> string \<Rightarrow> int \<Rightarrow> canvas" where
  "on_serial_pin c row col = place_purple_pindrop c"


section \<open>One tick of the motion engine: \<open>GridCanvas._tick\<close>\<close>

text \<open>
  The values that \<open>random.uniform\<close> returns during the update of one agent, one field
  for each call site in the order of the source: the two draws of the velocity
  re-randomisation and the jitter of the left, right, top and bottom bounce.
\<close>

record draws =
  rand_vx :: real
  rand_vy :: real
  jit_x0 :: real
  jit_x1 :: real
  jit_y0 :: real
  jit_y1 :: real

text \<open>
  \<^verbatim>\<open>
  w = max(1, self.width()); h = max(1, self.height()); cs = self.cell_size
  area_x0 = cs; area_y0 = cs
  area_x1 = max(area_x0 + 10, w - cs); area_y1 = max(area_y0 + 10, h - cs)
  \<close>
\<close>

definition area_x0 :: "canvas \<Rightarrow> real" where
  "area_x0 c = real_of_int (cell_size c)"

definition area_y0 :: "canvas \<Rightarrow> real" where
  "area_y0 c = real_of_int (cell_size c)"

definition area_x1 :: "canvas \<Rightarrow> real" where
  "area_x1 c = real_of_int (max (cell_size c + 10) (max 1 (width c) - cell_size c))"

definition area_y1 :: "canvas \<Rightarrow> real" where
  "area_y1 c = real_of_int (max (cell_size c + 10) (max 1 (height c) - cell_size c))"

text \<open>\<open>QRectF(x - half, y - half, size, size)\<close> with \<open>half = size / 2.0\<close>.\<close>

definition bbox_at :: "agent \<Rightarrow> real \<Rightarrow> real \<Rightarrow> qrectf" where
  "bbox_at a x y =
     \<lparr>rect_x = x - agent_size a / 2, rect_y = y - agent_size a / 2,
      rect_w = agent_size a, rect_h = agent_size a\<rparr>"

definition bbox_now :: "agent \<Rightarrow> qrectf" where
  "bbox_now a = bbox_at a (pos_x a) (pos_y a)"

text \<open>
  \<^verbatim>\<open>
  next_x_pos = QPointF(pos.x() + vel.x(), pos.y())
  bbox_x = QRectF(next_x_pos.x() - half, next_x_pos.y() - half, size, size)
  if self._bbox_intersects_rects(bbox_x): vel.setX(-vel.x())
  else: pos.setX(next_x_pos.x())
  \<close>
  and the same for Y, read after the X step has written \<open>pos\<close>.
\<close>

definition step_x :: "qrectf list \<Rightarrow> agent \<Rightarrow> agent" where
  "step_x rs a =
     (if bbox_intersects_rects rs (bbox_at a (pos_x a + vel_x a) (pos_y a))
      then a\<lparr>vel_x := - vel_x a\<rparr>
      else a\<lparr>pos_x := pos_x a + vel_x a\<rparr>)"

definition step_y :: "qrectf list \<Rightarrow> agent \<Rightarrow> agent" where
  "step_y rs a =
     (if bbox_intersects_rects rs (bbox_at a (pos_x a) (pos_y a + vel_y a))
      then a\<lparr>vel_y := - vel_y a\<rparr>
      else a\<lparr>pos_y := pos_y a + vel_y a\<rparr>)"

text \<open>
  \<^verbatim>\<open>
  bbox_now = QRectF(pos.x() - half, pos.y() - half, size, size)
  if self._bbox_intersects_rects(bbox_now):
      nudged = False
      for _ in range(6):
          pos.setX(pos.x() + vel.x()); pos.setY(pos.y() + vel.y())
          bbox_now = QRectF(pos.x() - half, pos.y() - half, size, size)
          if not self._bbox_intersects_rects(bbox_now):
              nudged = True
              break
      if not nudged:
          vel.setX(random.uniform(-2.2, 2.2) * 1.3)
          vel.setY(random.uniform(-2.2, 2.2) * 1.3)
  \<close>
  \<open>nudge k\<close> is the \<open>for\<close> loop with \<open>k\<close> rounds left; it returns \<open>nudged\<close> and the agent.
\<close>

fun nudge :: "nat \<Rightarrow> qrectf list \<Rightarrow> agent \<Rightarrow> bool \<times> agent" where
  "nudge 0 rs a = (False, a)"
| "nudge (Suc k) rs a =
     (let a' = a\<lparr>pos_x := pos_x a + vel_x a, pos_y := pos_y a + vel_y a\<rparr>
      in if \<not> bbox_intersects_rects rs (bbox_now a') then (True, a') else nudge k rs a')"

definition recover :: "qrectf list \<Rightarrow> draws \<Rightarrow> agent \<Rightarrow> agent" where
  "recover rs d a =
     (if bbox_intersects_rects rs (bbox_now a)
      then (let (nudged, a') = nudge 6 rs a
            in if \<not> nudged
               then a'\<lparr>vel_x := rand_vx d * 1.3, vel_y := rand_vy d * 1.3\<rparr>
               else a')
      else a)"



















text \<open>
  Strict overlap of two coordinate ranges \<open>[l1, r1]\<close> and \<open>[l2, r2]\<close>: the ranges share
  more than a boundary point. The ranges of a rectangle are read off its normal form.
\<close>

definition range_lo :: "real \<Rightarrow> real \<Rightarrow> real" where
  "range_lo p len = min p (p + len)"

definition range_hi :: "real \<Rightarrow> real \<Rightarrow> real" where
  "range_hi p len = max p (p + len)"

definition ranges_overlap :: "real \<Rightarrow> real \<Rightarrow> real \<Rightarrow> real \<Rightarrow> bool" where
  "ranges_overlap l1 r1 l2 r2 = (max l1 l2 < min r1 r2)"

definition overlaps :: "qrectf \<Rightarrow> qrectf \<Rightarrow> bool" where
  "overlaps a b =
     (ranges_overlap (range_lo (rect_x a) (rect_w a)) (range_hi (rect_x a) (rect_w a))
                     (range_lo (rect_x b) (rect_w b)) (range_hi (rect_x b) (rect_w b)) \<and>
      ranges_overlap (range_lo (rect_y a) (rect_h a)) (range_hi (rect_y a) (rect_h a))
                     (range_lo (rect_y b) (rect_h b)) (range_hi (rect_y b) (rect_h b)))"

text \<open>
  Two rectangles touch when, on some axis, the range of one ends where the range of the
  other begins.
\<close>

definition touching :: "qrectf \<Rightarrow> qrectf \<Rightarrow> bool" where
  "touching a b =
     (range_hi (rect_x a) (rect_w a) = range_lo (rect_x b) (rect_w b) \<or>
      range_hi (rect_x b) (rect_w b) = range_lo (rect_x a) (rect_w a) \<or>
      range_hi (rect_y a) (rect_h a) = range_lo (rect_y b) (rect_h b) \<or>
      range_hi (rect_y b) (rect_h b) = range_lo (rect_y a) (rect_h a))"


text \<open>The agent is no wider and no taller than the playable area.\<close>

definition fits :: "canvas \<Rightarrow> agent \<Rightarrow> bool" where
  "fits c a =
     (agent_size a \<le> area_x1 c - area_x0 c \<and> agent_size a \<le> area_y1 c - area_y0 c)"

text \<open>
  The tests of the X and of the Y step: the box at the proposed position intersects a
  zone. In the tick the Y test is made on the agent as the X step has left it.
\<close>

definition blocked_x :: "qrectf list \<Rightarrow> agent \<Rightarrow> bool" where
  "blocked_x rs a = bbox_intersects_rects rs (bbox_at a (pos_x a + vel_x a) (pos_y a))"

definition blocked_y :: "qrectf list \<Rightarrow> agent \<Rightarrow> bool" where
  "blocked_y rs a = bbox_intersects_rects rs (bbox_at a (pos_x a) (pos_y a + vel_y a))"



section \<open>Sample states\<close>

text \<open>
  The canvas as \<open>MainWindow\<close> builds it (cell size 70) at 400 by 400 pixels, before the
  simulation has started, and an agent of the size \<open>start_quads\<close> gives
  (\<open>cs * 0.9 = 63\<close>).
\<close>

definition demo_canvas :: canvas where
  "demo_canvas =
     \<lparr>cell_size = 70, width = 400, height = 400, pins = [], rectangles = [],
      quadcopters = [], anim_timer_active = False, visited = {},
      purple_drone = None, purple_pins = [], update_calls = 0\<rparr>"

definition demo_drone :: agent where
  "demo_drone =
     \<lparr>pos_x = 150, pos_y = 220, vel_x = 1.3, vel_y = -1.3, agent_size = 63, battery = 90\<rparr>"



text \<open>The same canvas while the simulation runs, with the distinguished agent in cell C2.\<close>

definition flying_canvas :: canvas where
  "flying_canvas = demo_canvas\<lparr>purple_drone := Some demo_drone, anim_timer_active := True\<rparr>"

text \<open>
  A running canvas with one ordinary agent that is about to cross the left edge, and the
  distinguished agent.
\<close>

definition edge_agent :: agent where
  "edge_agent =
     \<lparr>pos_x = 105, pos_y = 200, vel_x = -5, vel_y = 1, agent_size = 63, battery = 80\<rparr>"

definition busy_canvas :: canvas where
  "busy_canvas = flying_canvas\<lparr>quadcopters := [edge_agent]\<rparr>"








section \<open>Properties of the grid labels\<close>

declare index_to_letters_loop.simps [simp del]

lemma chr_arg_in_range:
  "65 \<le> py_ord CHR ''A'' + m mod 26 \<and> py_ord CHR ''A'' + m mod 26 \<le> 90"
  by (simp add: py_ord_def)

lemma py_ord_chr: "0 \<le> i \<Longrightarrow> i < 256 \<Longrightarrow> py_ord (py_chr i) = i"
  by (simp add: py_ord_def py_chr_def)

text \<open>The accumulator of the loop is a prefix of its result.\<close>

lemma index_to_letters_loop_acc:
  "index_to_letters_loop n acc = acc @ index_to_letters_loop n []"
proof (induction "nat n" arbitrary: n acc rule: less_induct)
  case less
  show ?case
  proof (cases "n > 0")
    case True
    let ?c = "py_chr (py_ord CHR ''A'' + (n - 1) mod 26)"
    let ?m = "(n - 1) div 26"
    have smaller: "nat ?m < nat n" using True by simp
    have "index_to_letters_loop n acc = index_to_letters_loop ?m (acc @ [?c])"
      using True by (subst index_to_letters_loop.simps) simp
    also have "\<dots> = (acc @ [?c]) @ index_to_letters_loop ?m []"
      by (rule less [OF smaller])
    finally have lhs: "index_to_letters_loop n acc = acc @ ?c # index_to_letters_loop ?m []"
      by simp
    have "index_to_letters_loop n [] = index_to_letters_loop ?m [?c]"
      using True by (subst index_to_letters_loop.simps) simp
    also have "\<dots> = [?c] @ index_to_letters_loop ?m []"
      by (rule less [OF smaller])
    finally show ?thesis using lhs by simp
  next
    case False
    then show ?thesis by (simp add: index_to_letters_loop.simps)
  qed
qed

lemma index_to_letters_nonpos: "n \<le> 0 \<Longrightarrow> index_to_letters n = []"
  by (simp add: index_to_letters_def index_to_letters_loop.simps)

text \<open>The last letter is the digit of \<open>n - 1\<close>, the letters before it spell the quotient.\<close>

lemma index_to_letters_pos:
  assumes "n > 0"
  shows "index_to_letters n =
           index_to_letters ((n - 1) div 26) @ [py_chr (py_ord CHR ''A'' + (n - 1) mod 26)]"
proof -
  let ?c = "py_chr (py_ord CHR ''A'' + (n - 1) mod 26)"
  have "index_to_letters_loop n [] = index_to_letters_loop ((n - 1) div 26) [?c]"
    using assms by (subst index_to_letters_loop.simps) simp
  also have "\<dots> = [?c] @ index_to_letters_loop ((n - 1) div 26) []"
    by (rule index_to_letters_loop_acc)
  finally show ?thesis by (simp add: index_to_letters_def)
qed

lemma is_AZ_chr: "is_AZ (py_chr (py_ord CHR ''A'' + m mod 26))"
proof -
  have "0 \<le> m mod 26" "m mod 26 < 26" by simp_all
  then have "py_ord (py_chr (65 + m mod 26)) = 65 + m mod 26"
    by (intro py_ord_chr) simp_all
  then show ?thesis by (simp add: is_AZ_def py_ord_def)
qed

lemma py_ord_letter:
  "py_ord (py_chr (py_ord CHR ''A'' + m mod 26)) - py_ord CHR ''A'' + 1 = m mod 26 + 1"
proof -
  have "0 \<le> m mod 26" "m mod 26 < 26" by simp_all
  then have "py_ord (py_chr (65 + m mod 26)) = 65 + m mod 26"
    by (intro py_ord_chr) simp_all
  then show ?thesis by (simp add: py_ord_def)
qed

lemma index_to_letters_AZ: "list_all is_AZ (index_to_letters n)"
proof (induction "nat n" arbitrary: n rule: less_induct)
  case less
  show ?case
  proof (cases "n > 0")
    case True
    have "nat ((n - 1) div 26) < nat n" using True by simp
    then have "list_all is_AZ (index_to_letters ((n - 1) div 26))" by (rule less)
    then show ?thesis using True by (simp add: index_to_letters_pos is_AZ_chr)
  next
    case False
    then show ?thesis by (simp add: index_to_letters_nonpos)
  qed
qed

lemma upper_char_AZ: "is_AZ ch \<Longrightarrow> upper_char ch = ch"
  by (simp add: is_AZ_def upper_char_def py_ord_def)

lemma upper_AZ: "list_all is_AZ s \<Longrightarrow> upper s = s"
  by (induction s) (simp_all add: upper_def upper_char_AZ)

lemma not_isspace_AZ: "is_AZ ch \<Longrightarrow> \<not> isspace ch"
  by (simp add: is_AZ_def isspace_def py_ord_def)

lemma dropWhile_isspace_AZ: "list_all is_AZ s \<Longrightarrow> dropWhile isspace s = s"
  by (cases s) (simp_all add: not_isspace_AZ)

lemma strip_AZ: "list_all is_AZ s \<Longrightarrow> strip s = s"
  by (simp add: strip_def dropWhile_isspace_AZ list_all_iff)

lemma upper_index_to_letters: "upper (index_to_letters n) = index_to_letters n"
  by (simp add: upper_AZ index_to_letters_AZ)

lemma letters_to_index_loop_append:
  "letters_to_index_loop (s @ t) val = letters_to_index_loop t (letters_to_index_loop s val)"
  by (induction s arbitrary: val) simp_all

lemma letters_to_index_AZ: "list_all is_AZ s \<Longrightarrow> letters_to_index s = letters_to_index_loop s 0"
  by (simp add: letters_to_index_def upper_AZ strip_AZ)

lemma roundtrip_loop: "0 \<le> n \<Longrightarrow> letters_to_index_loop (index_to_letters n) 0 = n"
proof (induction "nat n" arbitrary: n rule: less_induct)
  case less
  show ?case
  proof (cases "n > 0")
    case True
    let ?m = "(n - 1) div 26"
    have "nat ?m < nat n" "0 \<le> ?m" using True by simp_all
    then have ih: "letters_to_index_loop (index_to_letters ?m) 0 = ?m" by (rule less)
    have "letters_to_index_loop (index_to_letters n) 0 = ?m * 26 + ((n - 1) mod 26 + 1)"
      using True
      by (simp add: index_to_letters_pos letters_to_index_loop_append ih is_AZ_chr py_ord_letter)
    also have "\<dots> = n" by simp
    finally show ?thesis .
  next
    case False
    with less.prems have "n = 0" by simp
    then show ?thesis by (simp add: index_to_letters_nonpos)
  qed
qed

text \<open>
  Claim C2. For every positive integer \<open>n\<close>, converting \<open>n\<close> to its letter label with
  \<open>_index_to_letters\<close> and the label back with \<open>_letters_to_index\<close> gives \<open>n\<close> again.
\<close>

theorem letters_roundtrip: "1 \<le> n \<Longrightarrow> letters_to_index (index_to_letters n) = n"
  by (simp add: letters_to_index_AZ index_to_letters_AZ roundtrip_loop)

theorem letters_roundtrip_witness:
  "(1::int) \<le> 703 \<and> index_to_letters 703 = ''AAA'' \<and>
   letters_to_index (index_to_letters 703) = 703"
  using letters_roundtrip [of 703] by code_simp

lemma letters_to_index_loop_filter:
  "letters_to_index_loop (filter is_AZ s) val = letters_to_index_loop s val"
  by (induction s arbitrary: val) simp_all

lemma filter_dropWhile_disjoint:
  "(\<And>x. Q x \<Longrightarrow> \<not> P x) \<Longrightarrow> filter P (dropWhile Q s) = filter P s"
  by (induction s) auto

lemma filter_AZ_strip: "filter is_AZ (strip s) = filter is_AZ s"
proof -
  have sp: "\<And>x. isspace x \<Longrightarrow> \<not> is_AZ x"
    by (auto simp add: isspace_def is_AZ_def py_ord_def)
  have "filter is_AZ (strip s) =
        rev (filter is_AZ (dropWhile isspace (rev (dropWhile isspace s))))"
    by (simp add: strip_def rev_filter)
  also have "\<dots> = rev (filter is_AZ (rev (dropWhile isspace s)))"
    using sp by (simp add: filter_dropWhile_disjoint)
  also have "\<dots> = filter is_AZ (dropWhile isspace s)"
    by (simp add: rev_filter)
  also have "\<dots> = filter is_AZ s"
    using sp by (simp add: filter_dropWhile_disjoint)
  finally show ?thesis .
qed

text \<open>
  Claim C3 says that \<open>_letters_to_index\<close> fails with a typed error on the empty string
  and on every string with a character outside A..Z. The function has no failing path:
  it returns 0 for the empty string, 1 for \<open>A1\<close> (the digit is skipped) and 0 for \<open>?!\<close>.
\<close>

theorem letters_to_index_no_failure_counterexample:
  "letters_to_index [] = 0 \<and> letters_to_index ''A1'' = 1 \<and> letters_to_index ''?!'' = 0"
  by code_simp

text \<open>
  Claim C3 as amended. \<open>_letters_to_index\<close> never fails: it returns 0 for the empty
  string, and for an ASCII string it returns the value of the upper-cased input with
  every character outside A..Z left out, which is 0 when no letter remains.
\<close>

theorem letters_to_index_skips_invalid:
  assumes "is_ascii s"
  shows "letters_to_index [] = 0 \<and>
         letters_to_index s = letters_to_index_loop (filter is_AZ (upper s)) 0 \<and>
         (filter is_AZ (upper s) = [] \<longrightarrow> letters_to_index s = 0)"
proof -
  have "letters_to_index s = letters_to_index_loop (filter is_AZ (strip (upper s))) 0"
    by (simp add: letters_to_index_def letters_to_index_loop_filter)
  then have eq: "letters_to_index s = letters_to_index_loop (filter is_AZ (upper s)) 0"
    by (simp add: filter_AZ_strip)
  have "letters_to_index [] = 0"
    by (simp add: letters_to_index_def upper_def strip_def)
  with eq show ?thesis by simp
qed

theorem letters_to_index_skips_invalid_witness:
  "is_ascii ''a 1b'' \<and> letters_to_index [] = 0 \<and>
   letters_to_index ''a 1b'' = letters_to_index_loop ''AB'' 0 \<and>
   letters_to_index ''a 1b'' = 28"
  using letters_to_index_skips_invalid [of "''a 1b''"] by code_simp

text \<open>
  Claim C10. \<open>_index_to_letters\<close> is total over the integers (the loop terminates for
  every \<open>n\<close>, which the termination proof of \<open>index_to_letters_loop\<close> shows): for
  \<open>n \<le> 0\<close> it returns the empty string, and for \<open>n \<ge> 1\<close> a non-empty string whose
  characters all lie in A..Z.
\<close>

theorem index_to_letters_total:
  "(n \<le> 0 \<longrightarrow> index_to_letters n = []) \<and>
   (1 \<le> n \<longrightarrow> index_to_letters n \<noteq> [] \<and> list_all is_AZ (index_to_letters n))"
proof -
  have "index_to_letters n \<noteq> []" if "1 \<le> n"
    using that by (simp add: index_to_letters_pos)
  then show ?thesis
    by (simp add: index_to_letters_nonpos index_to_letters_AZ)
qed

theorem index_to_letters_total_witness:
  "(-5::int) \<le> 0 \<and> index_to_letters (-5) = [] \<and> index_to_letters 0 = [] \<and>
   (1::int) \<le> 52 \<and> index_to_letters 52 = ''AZ'' \<and> list_all is_AZ (index_to_letters 52)"
  using index_to_letters_total [of "-5"] index_to_letters_total [of 0]
        index_to_letters_total [of 52]
  by code_simp


section \<open>Properties of the exclusion-zone test\<close>

lemma intersects_iff_overlaps: "intersects a b \<longleftrightarrow> overlaps a b"
  unfolding intersects_def overlaps_def ranges_overlap_def range_lo_def range_hi_def Let_def
  by (cases "rect_w a < 0"; cases "rect_w b < 0"; cases "rect_h a < 0"; cases "rect_h b < 0")
     auto

lemma bbox_intersects_rects_ex:
  "bbox_intersects_rects rs bbox \<longleftrightarrow> (\<exists>r\<in>set rs. intersects bbox r)"
  by (induction rs) auto

lemma touching_not_overlaps: "touching a b \<Longrightarrow> \<not> overlaps a b"
  unfolding touching_def overlaps_def ranges_overlap_def by auto

text \<open>
  Claim C8. \<open>_bbox_intersects_rects\<close> returns true exactly when some rectangle of the
  set overlaps the query box strictly on both axes; when every rectangle only touches
  the box along an edge, the test is false.
\<close>

theorem bbox_intersects_rects_strict:
  "(bbox_intersects_rects rs bbox \<longleftrightarrow> (\<exists>r\<in>set rs. overlaps bbox r)) \<and>
   ((\<forall>r\<in>set rs. touching bbox r) \<longrightarrow> \<not> bbox_intersects_rects rs bbox)"
  by (auto simp add: bbox_intersects_rects_ex intersects_iff_overlaps
           dest: touching_not_overlaps)

theorem bbox_intersects_rects_strict_witness:
  "touching \<lparr>rect_x = 0, rect_y = 0, rect_w = 10, rect_h = 10\<rparr>
     \<lparr>rect_x = 10, rect_y = 0, rect_w = 5, rect_h = 10\<rparr> \<and>
   \<not> bbox_intersects_rects [\<lparr>rect_x = 10, rect_y = 0, rect_w = 5, rect_h = 10\<rparr>]
        \<lparr>rect_x = 0, rect_y = 0, rect_w = 10, rect_h = 10\<rparr> \<and>
   bbox_intersects_rects [\<lparr>rect_x = 10, rect_y = 0, rect_w = 5, rect_h = 10\<rparr>,
                          \<lparr>rect_x = 9, rect_y = 9, rect_w = 5, rect_h = 5\<rparr>]
        \<lparr>rect_x = 0, rect_y = 0, rect_w = 10, rect_h = 10\<rparr>"
  using bbox_intersects_rects_strict
    [of "[\<lparr>rect_x = 10, rect_y = 0, rect_w = 5, rect_h = 10\<rparr>]"
        "\<lparr>rect_x = 0, rect_y = 0, rect_w = 10, rect_h = 10\<rparr>"]
  by (simp add: touching_def range_lo_def range_hi_def intersects_def)


section \<open>Properties of the marker store and of stopping\<close>

text \<open>
  Claim C9. After \<open>stop_quads\<close> the list of ordinary agents is empty, there is no
  distinguished agent and the list of distinguished markers is empty; the standard
  markers, the visited cells and the rectangles are as before; and stopping a canvas
  that has just been stopped changes nothing.
\<close>

theorem stop_quads_frame:
  "quadcopters (stop_quads c) = [] \<and> purple_drone (stop_quads c) = None \<and>
   purple_pins (stop_quads c) = [] \<and>
   pins (stop_quads c) = pins c \<and> visited (stop_quads c) = visited c \<and>
   rectangles (stop_quads c) = rectangles c \<and>
   stop_quads (stop_quads c) = stop_quads c"
  by (simp add: stop_quads_def Let_def)

theorem stop_quads_frame_witness:
  "quadcopters (stop_quads busy_canvas) = [] \<and> purple_drone (stop_quads busy_canvas) = None \<and>
   stop_quads busy_canvas = demo_canvas\<lparr>update_calls := 1\<rparr> \<and>
   stop_quads demo_canvas = demo_canvas \<and>
   stop_quads (stop_quads busy_canvas) = stop_quads busy_canvas"
  using stop_quads_frame [of busy_canvas]
  by (simp add: busy_canvas_def flying_canvas_def demo_canvas_def stop_quads_def)

text \<open>
  Claim C6. \<open>place_purple_pindrop\<close> leaves the whole state as it is, adding no marker and
  requesting no repaint, when there is no distinguished agent or when the cell of the
  distinguished agent has a row or a column index below 1.
\<close>

theorem place_purple_pindrop_noop:
  assumes "purple_drone c = None \<or>
           (\<exists>pd. purple_drone c = Some pd \<and>
                 (fst (point_to_cell (cell_size c) pd) < 1 \<or>
                  snd (point_to_cell (cell_size c) pd) < 1))"
  shows "place_purple_pindrop c = c"
  using assms by (auto simp add: place_purple_pindrop_def split: prod.splits)

theorem place_purple_pindrop_noop_witness:
  "place_purple_pindrop demo_canvas = demo_canvas \<and>
   fst (point_to_cell 70 (demo_drone\<lparr>pos_y := 35\<rparr>)) < 1 \<and>
   place_purple_pindrop (demo_canvas\<lparr>purple_drone := Some (demo_drone\<lparr>pos_y := 35\<rparr>)\<rparr>) =
     demo_canvas\<lparr>purple_drone := Some (demo_drone\<lparr>pos_y := 35\<rparr>)\<rparr>"
  using place_purple_pindrop_noop [of demo_canvas]
        place_purple_pindrop_noop
          [of "demo_canvas\<lparr>purple_drone := Some (demo_drone\<lparr>pos_y := 35\<rparr>)\<rparr>"]
  by (simp add: demo_canvas_def demo_drone_def point_to_cell_def)

text \<open>
  Claim C1. Whatever row label and column number a telemetry event carries, the slot
  makes the one call of \<open>place_purple_pindrop\<close>: the result does not depend on the
  payload, no standard marker is added, and when the distinguished agent is in the
  content cell \<open>(r, k)\<close> the distinguished markers are the old ones with that cell
  appended unless it is already there.
\<close>

theorem on_serial_pin_ignores_payload:
  "on_serial_pin c row col = place_purple_pindrop c \<and>
   on_serial_pin c row col = on_serial_pin c row' col' \<and>
   pins (on_serial_pin c row col) = pins c \<and>
   (purple_drone c = Some pd \<and> cell_size c \<noteq> 0 \<and>
    point_to_cell (cell_size c) pd = (r, k) \<and> 1 \<le> r \<and> 1 \<le> k \<longrightarrow>
    purple_pins (on_serial_pin c row col) =
      (if (index_to_letters r, k) \<in> set (purple_pins c) then purple_pins c
       else purple_pins c @ [(index_to_letters r, k)]))"
  by (auto simp add: on_serial_pin_def place_purple_pindrop_def upper_index_to_letters Let_def
           split: option.splits prod.splits)

theorem on_serial_pin_ignores_payload_witness:
  "purple_drone flying_canvas = Some demo_drone \<and> cell_size flying_canvas \<noteq> 0 \<and>
   point_to_cell (cell_size flying_canvas) demo_drone = (3, 2) \<and>
   purple_pins (on_serial_pin flying_canvas ''B'' 9) = [(''C'', 2)] \<and>
   pins (on_serial_pin flying_canvas ''B'' 9) = []"
  using on_serial_pin_ignores_payload [of flying_canvas "''B''" 9 "''B''" 9 demo_drone 3 2]
  by (simp add: flying_canvas_def demo_canvas_def demo_drone_def point_to_cell_def)
     code_simp












section \<open>Properties of the tick\<close>

lemma size_step_x [simp]: "agent_size (step_x rs a) = agent_size a"
  by (simp add: step_x_def)

lemma size_step_y [simp]: "agent_size (step_y rs a) = agent_size a"
  by (simp add: step_y_def)

lemma size_nudge [simp]: "agent_size (snd (nudge k rs a)) = agent_size a"
  by (induction k arbitrary: a) (simp_all add: Let_def)

lemma size_recover [simp]: "agent_size (recover rs d a) = agent_size a"
proof -
  have "agent_size (snd (nudge 6 rs a)) = agent_size a" by (rule size_nudge)
  then show ?thesis by (cases "nudge 6 rs a") (simp add: recover_def)
qed







text \<open>
  The configuration \<open>MainWindow\<close> ships: cell size 70, a widget of at least its minimum
  size of 400 by 300, agents of size \<open>70 * 0.9\<close>.
\<close>

lemma shipped_configuration_fits:
  "cell_size c = 70 \<Longrightarrow> 400 \<le> width c \<Longrightarrow> 300 \<le> height c \<Longrightarrow> agent_size a = 63 \<Longrightarrow>
   fits c a"
  by (simp add: fits_def area_x0_def area_x1_def area_y0_def area_y1_def)









text \<open>
  After the two axis steps the box still overlaps a zone only when both moves were
  blocked and the box overlapped a zone before the tick.
\<close>

lemma overlap_after_steps:
  "bbox_intersects_rects rs (bbox_now (step_y rs (step_x rs a))) \<longleftrightarrow>
   blocked_x rs a \<and> blocked_y rs (step_x rs a) \<and> bbox_intersects_rects rs (bbox_now a)"
  by (auto simp add: blocked_x_def blocked_y_def step_x_def step_y_def bbox_now_def
        bbox_at_def)




end
